theory Spec2Isabelle
  imports Main "HOL-Library.Sublist" "HOL-Library.Char_ord" "HOL-Library.List_Lexorder"
    "HOL-Library.AList"
begin

section \<open>Go strings\<close>

text \<open>
  A Go string is a sequence of bytes: \<^typ>\<open>string\<close>. The two functions of package
  \<^verbatim>\<open>strings\<close> that the test generator calls.
\<close>

definition strings_HasSuffix :: "string \<Rightarrow> string \<Rightarrow> bool" where
  "strings_HasSuffix s suf = suffix suf s"

definition strings_TrimSuffix :: "string \<Rightarrow> string \<Rightarrow> string" where
  "strings_TrimSuffix s suf =
     (if strings_HasSuffix s suf then take (length s - length suf) s else s)"

text \<open>
  The number of positions of a text at which a pattern occurs (occurrences may overlap).
  It is the measuring device of the rendering theorems, not part of the program.
\<close>

fun count_occ :: "string \<Rightarrow> string \<Rightarrow> nat" where
  "count_occ p [] = (if p = [] then 1 else 0)"
| "count_occ p (c # cs) = (if prefix p (c # cs) then 1 else 0) + count_occ p cs"

text \<open>
  The bytes a Go identifier is made of: ASCII letters, digits, the underscore, and the
  bytes of the UTF-8 encoding of a letter or digit beyond ASCII (all are at least 128).
  The names the Go parser puts into a declaration are identifiers.
\<close>

definition isIdentChar :: "char \<Rightarrow> bool" where
  "isIdentChar c =
     (let k = (of_char c :: nat)
      in (65 \<le> k \<and> k \<le> 90) \<or> (97 \<le> k \<and> k \<le> 122) \<or> (48 \<le> k \<and> k \<le> 57) \<or> k = 95 \<or> 128 \<le> k)"

definition identChars :: "string \<Rightarrow> bool" where
  "identChars s = list_all isIdentChar s"

section \<open>The syntax tree of a source file (package go/ast)\<close>

text \<open>
  \<^verbatim>\<open>ast.File\<close> as far as \<^verbatim>\<open>generateTestForFile\<close> reads it: the package name
  (\<^verbatim>\<open>node.Name.Name\<close>) and the top-level declarations in source order
  (\<^verbatim>\<open>node.Decls\<close>). A declaration is a \<^verbatim>\<open>*ast.FuncDecl\<close> (with its receiver,
  when it is a method, and its name \<^verbatim>\<open>fn.Name.Name\<close>) or a \<^verbatim>\<open>*ast.GenDecl\<close>
  (import, const, type or var, with the names it declares).
\<close>

datatype Decl = FuncDecl "string option" string | GenDecl "string list"

record ast_File =
  File_Name :: string
  File_Decls :: "Decl list"

text \<open>
  \<^verbatim>\<open>ast.IsExported(name)\<close>: the first rune of the name is an upper-case letter. For a name
  that starts with an ASCII byte that is the range A to Z. For a name that starts with a
  byte beyond ASCII, Go decodes the rune and consults the Unicode tables, which are not
  part of the repository: the model takes that test as the parameter \<open>upper\<close>. The empty
  name is not exported.
\<close>

definition IsExported :: "(string \<Rightarrow> bool) \<Rightarrow> string \<Rightarrow> bool" where
  "IsExported upper name =
     (case name of
        [] \<Rightarrow> False
      | c # _ \<Rightarrow>
          if (of_char c :: nat) < 128 then 65 \<le> (of_char c :: nat) \<and> (of_char c :: nat) \<le> 90
          else upper name)"

section \<open>The template and its data\<close>

record FunctionData =
  Name :: string
  TableDriven :: bool

record TestData =
  Package :: string
  Functions :: "FunctionData list"

text \<open>
  The loop of \<^verbatim>\<open>generateTestForFile\<close> that finds the exported functions:
  \<^verbatim>\<open>
  var functions []FunctionData
  for _, decl := range node.Decls {
      if fn, ok := decl.(*ast.FuncDecl); ok && ast.IsExported(fn.Name.Name) {
          functions = append(functions, FunctionData{Name: fn.Name.Name, TableDriven: tableTests})
      }
  }
  \<close>
  The accumulator \<open>functions\<close> is threaded through the declarations.
\<close>

fun find_functions ::
  "(string \<Rightarrow> bool) \<Rightarrow> bool \<Rightarrow> Decl list \<Rightarrow> FunctionData list \<Rightarrow> FunctionData list" where
  "find_functions upper tableTests [] functions = functions"
| "find_functions upper tableTests (FuncDecl recv name # decls) functions =
     (if IsExported upper name
      then find_functions upper tableTests decls
             (functions @ [\<lparr>Name = name, TableDriven = tableTests\<rparr>])
      else find_functions upper tableTests decls functions)"
| "find_functions upper tableTests (GenDecl names # decls) functions =
     find_functions upper tableTests decls functions"

definition exported_functions :: "(string \<Rightarrow> bool) \<Rightarrow> bool \<Rightarrow> Decl list \<Rightarrow> FunctionData list" where
  "exported_functions upper tableTests decls = find_functions upper tableTests decls []"

text \<open>
  The constant \<^verbatim>\<open>TestTemplate\<close>, as package text/template parses it: literal text, the
  fields of the current value, one conditional and one loop. No action of the template
  trims white space, so the text between the actions is copied byte for byte; a string
  field is printed as it is. Inside \<^verbatim>\<open>{{range .Functions}}\<close> the current value is one
  \<^verbatim>\<open>FunctionData\<close>; \<open>fnode\<close> are the nodes evaluated there, \<open>tnode\<close> the nodes
  evaluated on the \<^verbatim>\<open>TestData\<close>.
\<close>

datatype fnode = FText string | FName | FIfTableDriven "fnode list" "fnode list"

datatype tnode = TText string | TPackage | TRangeFunctions "fnode list"

fun exec_fnode :: "FunctionData \<Rightarrow> fnode \<Rightarrow> string" where
  "exec_fnode d (FText s) = s"
| "exec_fnode d FName = Name d"
| "exec_fnode d (FIfTableDriven yes no) =
     (if TableDriven d then concat (map (exec_fnode d) yes) else concat (map (exec_fnode d) no))"

definition exec_block :: "fnode list \<Rightarrow> FunctionData \<Rightarrow> string" where
  "exec_block body d = concat (map (exec_fnode d) body)"

fun exec_tnode :: "TestData \<Rightarrow> tnode \<Rightarrow> string" where
  "exec_tnode d (TText s) = s"
| "exec_tnode d TPackage = Package d"
| "exec_tnode d (TRangeFunctions body) = concat (map (exec_block body) (Functions d))"

definition Execute :: "tnode list \<Rightarrow> TestData \<Rightarrow> string" where
  "Execute tmpl d = concat (map (exec_tnode d) tmpl)"

definition TAB :: string where
  "TAB = [CHR 0x09]"

text \<open>The branch of \<^verbatim>\<open>{{if .TableDriven}}\<close>, from the end of the action to \<^verbatim>\<open>{{else}}\<close>.\<close>

definition TableBranch :: "fnode list" where
  \<open>TableBranch =
     [FText (''\<newline>'' @
        TAB @ ''tests := []struct {\<newline>'' @
        TAB @ TAB @ ''name string\<newline>'' @
        TAB @ TAB @ ''// TODO: Add test case inputs and expected outputs\<newline>'' @
        TAB @ ''}{\<newline>'' @
        TAB @ TAB @ ''{\<newline>'' @
        TAB @ TAB @ TAB @ ''name: "test case 1",\<newline>'' @
        TAB @ TAB @ ''},\<newline>'' @
        TAB @ TAB @ ''{\<newline>'' @
        TAB @ TAB @ TAB @ ''name: "test case 2",\<newline>'' @
        TAB @ TAB @ ''},\<newline>'' @
        TAB @ ''}\<newline>'' @
        TAB @ ''\<newline>'' @
        TAB @ ''for _, tt := range tests {\<newline>'' @
        TAB @ TAB @ ''t.Run(tt.name, func(t *testing.T) {\<newline>'' @
        TAB @ TAB @ TAB @ ''// TODO: Call ''),
      FName,
      FText ('' with the test case inputs and verify outputs\<newline>'' @
        TAB @ TAB @ ''})\<newline>'' @
        TAB @ ''}\<newline>'' @
        TAB)]\<close>

text \<open>The branch from \<^verbatim>\<open>{{else}}\<close> to \<^verbatim>\<open>{{end}}\<close>.\<close>

definition FlatBranch :: "fnode list" where
  "FlatBranch =
     [FText (''\<newline>'' @ TAB @ ''// TODO: Write test for ''),
      FName,
      FText (''\<newline>'' @ TAB)]"

text \<open>The body of \<^verbatim>\<open>{{range .Functions}}\<close>: the test block of one function.\<close>

definition FunctionBlock :: "fnode list" where
  "FunctionBlock =
     [FText ''\<newline>func Test'',
      FName,
      FText (''(t *testing.T) {\<newline>'' @ TAB),
      FIfTableDriven TableBranch FlatBranch,
      FText ''\<newline>}\<newline>'']"

definition TestTemplate :: "tnode list" where
  \<open>TestTemplate =
     [TText ''package '',
      TPackage,
      TText (''\<newline>\<newline>import (\<newline>'' @ TAB @ ''"testing"\<newline>)\<newline>\<newline>''),
      TRangeFunctions FunctionBlock,
      TText ''\<newline>'']\<close>

text \<open>The text of the test block that the template emits for one function.\<close>

definition test_block :: "FunctionData \<Rightarrow> string" where
  "test_block d = exec_block FunctionBlock d"

text \<open>
  The specification's words for the symbol filter: the ordered subsequence of the
  declarations that are functions with an exported name, each turned into the data of
  one test block.
\<close>

fun is_function :: "Decl \<Rightarrow> bool" where
  "is_function (FuncDecl recv name) = True"
| "is_function (GenDecl names) = False"

fun function_name :: "Decl \<Rightarrow> string" where
  "function_name (FuncDecl recv name) = name"
| "function_name (GenDecl names) = []"

definition testable_symbols :: "(string \<Rightarrow> bool) \<Rightarrow> bool \<Rightarrow> Decl list \<Rightarrow> FunctionData list" where
  "testable_symbols upper tableTests decls =
     map (\<lambda>d. \<lparr>Name = function_name d, TableDriven = tableTests\<rparr>)
       (filter (\<lambda>d. is_function d \<and> IsExported upper (function_name d)) decls)"

text \<open>Forgetting the receiver of a method turns it into a free function of the same name.\<close>

fun strip_receiver :: "Decl \<Rightarrow> Decl" where
  "strip_receiver (FuncDecl recv name) = FuncDecl None name"
| "strip_receiver (GenDecl names) = GenDecl names"

text \<open>
  A pattern and the byte that follows an identifier in a text: the first byte of the
  pattern that cannot stand in an identifier differs from that byte. Then no occurrence of
  the pattern starts inside the identifier or runs across it.
\<close>

definition pattern_ok :: "string \<Rightarrow> char \<Rightarrow> bool" where
  "pattern_ok p c = (case dropWhile isIdentChar p of [] \<Rightarrow> False | d # _ \<Rightarrow> d \<noteq> c)"

section \<open>The file system\<close>

text \<open>
  A path is the list of the components of its absolute, cleaned form: \<^verbatim>\<open>filepath.Abs\<close>,
  \<^verbatim>\<open>filepath.Clean\<close> and the resolution of a relative path against the working directory
  happen before the model. \<open>path_string\<close> is the text of the path, on which the source
  tests the suffixes \<^verbatim>\<open>.go\<close> and \<^verbatim>\<open>_test.go\<close>. \<^verbatim>\<open>filepath.Join\<close> is only ever called
  with a directory and one file name.
\<close>

type_synonym path = "string list"

definition path_string :: "path \<Rightarrow> string" where
  "path_string p = (if p = [] then ''/'' else concat (map (\<lambda>c. ''/'' @ c) p))"

definition filepath_Base :: "path \<Rightarrow> string" where
  "filepath_Base p = (if p = [] then ''/'' else last p)"

definition filepath_Dir :: "path \<Rightarrow> path" where
  "filepath_Dir p = butlast p"

definition filepath_Join :: "path \<Rightarrow> string \<Rightarrow> path" where
  "filepath_Join dir name = dir @ [name]"

text \<open>
  The file system is a tree: a regular file with its bytes, or a directory with its
  entries by name. There are no symbolic links and no permissions in the model, so the
  only failures of a system call are a missing entry, a file where a directory is needed
  and a directory where a file is needed.
\<close>

datatype node = File string | Dir "(string \<times> node) list"

datatype errno = ENOENT | ENOTDIR | EISDIR

fun lookup :: "node \<Rightarrow> path \<Rightarrow> node option" where
  "lookup n [] = Some n"
| "lookup (File c) (x # p) = None"
| "lookup (Dir es) (x # p) = (case map_of es x of None \<Rightarrow> None | Some ch \<Rightarrow> lookup ch p)"

text \<open>\<^verbatim>\<open>os.Stat\<close>: the error is nil exactly when the path names an entry.\<close>

definition os_Stat :: "node \<Rightarrow> path \<Rightarrow> node option" where
  "os_Stat root p = lookup root p"

fun IsDir :: "node \<Rightarrow> bool" where
  "IsDir (Dir es) = True"
| "IsDir (File c) = False"

text \<open>
  \<^verbatim>\<open>os.MkdirAll\<close>: creates the directory and every missing parent; does nothing when the
  path is a directory already; fails when a component of the path is a regular file, and
  then has created nothing (the deepest existing component is the one that fails).
\<close>

fun os_MkdirAll :: "node \<Rightarrow> path \<Rightarrow> errno + node" where
  "os_MkdirAll (Dir es) [] = Inr (Dir es)"
| "os_MkdirAll (File c) p = Inl ENOTDIR"
| "os_MkdirAll (Dir es) (x # p) =
     (case map_of es x of
        None \<Rightarrow>
          (case os_MkdirAll (Dir []) p of
             Inl e \<Rightarrow> Inl e
           | Inr ch \<Rightarrow> Inr (Dir (AList.update x ch es)))
      | Some ch \<Rightarrow>
          (case os_MkdirAll ch p of
             Inl e \<Rightarrow> Inl e
           | Inr ch' \<Rightarrow> Inr (Dir (AList.update x ch' es))))"

text \<open>
  \<^verbatim>\<open>os.Create\<close>: opens the file for writing, creating it empty when it is missing and
  truncating it when it exists.
\<close>

fun os_Create :: "node \<Rightarrow> path \<Rightarrow> errno + node" where
  "os_Create (File c) [] = Inr (File [])"
| "os_Create (Dir es) [] = Inl EISDIR"
| "os_Create (File c) (x # p) = Inl ENOTDIR"
| "os_Create (Dir es) (x # p) =
     (case map_of es x of
        None \<Rightarrow> if p = [] then Inr (Dir (AList.update x (File []) es)) else Inl ENOENT
      | Some ch \<Rightarrow>
          (case os_Create ch p of
             Inl e \<Rightarrow> Inl e
           | Inr ch' \<Rightarrow> Inr (Dir (AList.update x ch' es))))"

text \<open>Writing to the open file appends the bytes to it (\<^verbatim>\<open>tmpl.Execute(file, data)\<close>).\<close>

fun file_Write :: "node \<Rightarrow> path \<Rightarrow> string \<Rightarrow> errno + node" where
  "file_Write (File c) [] s = Inr (File (c @ s))"
| "file_Write (Dir es) [] s = Inl EISDIR"
| "file_Write (File c) (x # p) s = Inl ENOTDIR"
| "file_Write (Dir es) (x # p) s =
     (case map_of es x of
        None \<Rightarrow> Inl ENOENT
      | Some ch \<Rightarrow>
          (case file_Write ch p s of
             Inl e \<Rightarrow> Inl e
           | Inr ch' \<Rightarrow> Inr (Dir (AList.update x ch' es))))"

section \<open>Walking a directory tree (filepath.Walk)\<close>

text \<open>
  \<^verbatim>\<open>filepath.Walk(root, fn)\<close> calls \<open>fn\<close> on the root and then, for a directory, on its
  entries in the lexical order of their names (\<^verbatim>\<open>readDirNames\<close> sorts them), each entry
  followed by what is below it. A visit is the path and what \<^verbatim>\<open>os.Lstat\<close> gave for it:
  \<open>Some\<close> of \<^verbatim>\<open>info.IsDir()\<close>, or \<open>None\<close> when it failed. \<open>filepath_walk\<close> is the sequence
  of the visits of a walk in which no call of \<open>fn\<close> returns an error.

  The sequence is computed from the tree as it is when the walk starts. The walk function
  of \<^verbatim>\<open>GenerateTests\<close> only ever adds directories and files named \<^verbatim>\<open>..._test.go\<close> to the
  tree, and on a directory or such a file it does nothing, so the visits that a changing
  tree would add have no effect.
\<close>

type_synonym visit = "path \<times> bool option"

function filepath_walk :: "path \<Rightarrow> node \<Rightarrow> visit list" where
  "filepath_walk p (File c) = [(p, Some False)]"
| "filepath_walk p (Dir es) =
     (p, Some True) #
     concat (map (\<lambda>name. case map_of es name of
                            None \<Rightarrow> [(filepath_Join p name, None)]
                          | Some ch \<Rightarrow> filepath_walk (filepath_Join p name) ch)
                 (sort (remdups (map fst es))))"
  by pat_completeness auto
termination
proof (relation "measure (\<lambda>(p, n). size n)")
  show "wf (measure (\<lambda>(p, n). size n))"
    by simp
next
  fix p :: path and es :: "(string \<times> node) list" and name ch
  assume "map_of es name = Some ch"
  then have "size ch < Suc (size_list (size_prod (\<lambda>_. 0) size) es)"
    by (induction es) (auto split: if_splits)
  then show "((filepath_Join p name, ch), (p, Dir es)) \<in> measure (\<lambda>(p, n). size n)"
    by simp
qed

section \<open>The test generator\<close>

text \<open>
  The state of a run: the file system and the lines printed on the standard output.
\<close>

datatype output_line =
    GeneratingTestsFor path
  | NoExportedFunctionsFound path
  | GeneratedTestFile path

record state =
  fsys :: node
  stdout :: "output_line list"

datatype parse_error = ReadError | SyntaxError

datatype error =
    FailedToStatPath
  | PathMustBeDirectoryOrGoFile
  | FailedToParseGoFile parse_error
  | FailedToCreateOutputDirectory errno
  | TestFileAlreadyExists path
  | FailedToCreateTestFile errno
  | FailedToExecuteTestTemplate errno
  | WalkError path

text \<open>
  \<^verbatim>\<open>parser.ParseFile(fset, path, nil, parser.ParseComments)\<close> reads the file at the path and
  parses its text. The Go parser is not part of the repository: the model takes it as the
  parameter \<open>parse\<close>, from the bytes of a file to its syntax tree, or \<open>None\<close> for a text
  that is not a Go source file.
\<close>

definition parser_ParseFile ::
  "(string \<Rightarrow> ast_File option) \<Rightarrow> node \<Rightarrow> path \<Rightarrow> parse_error + ast_File" where
  "parser_ParseFile parse root p =
     (case lookup root p of
        Some (File src) \<Rightarrow> (case parse src of None \<Rightarrow> Inl SyntaxError | Some f \<Rightarrow> Inr f)
      | Some (Dir es) \<Rightarrow> Inl ReadError
      | None \<Rightarrow> Inl ReadError)"

text \<open>The file name of the test file: \<^verbatim>\<open>strings.TrimSuffix(baseName, ".go") + "_test.go"\<close>.\<close>

definition test_file_name :: "path \<Rightarrow> string" where
  "test_file_name p = strings_TrimSuffix (filepath_Base p) ''.go'' @ ''_test.go''"

text \<open>
  \<^verbatim>\<open>generateTestForFile(path, outputDir, tableTests)\<close>. The output directory is \<open>None\<close> for
  the empty string and \<open>Some\<close> of the directory otherwise. The result is the error (\<open>None\<close>
  for nil) and the state the call leaves.
\<close>

definition generateTestForFile ::
  "(string \<Rightarrow> ast_File option) \<Rightarrow> (string \<Rightarrow> bool) \<Rightarrow> path \<Rightarrow> path option \<Rightarrow> bool \<Rightarrow> state
     \<Rightarrow> error option \<times> state" where
  "generateTestForFile parse upper p outputDir tableTests st =
     (case parser_ParseFile parse (fsys st) p of
        Inl err \<Rightarrow> (Some (FailedToParseGoFile err), st)
      | Inr node \<Rightarrow>
          let packageName = File_Name node;
              functions = exported_functions upper tableTests (File_Decls node)
          in
          if length functions = 0
          then (None, st\<lparr>stdout := stdout st @ [NoExportedFunctionsFound p]\<rparr>)
          else
            (case (case outputDir of
                     None \<Rightarrow> Inr (fsys st, filepath_Join (filepath_Dir p) (test_file_name p))
                   | Some dir \<Rightarrow>
                       (case os_MkdirAll (fsys st) dir of
                          Inl e \<Rightarrow> Inl e
                        | Inr root \<Rightarrow> Inr (root, filepath_Join dir (test_file_name p)))) of
               Inl e \<Rightarrow> (Some (FailedToCreateOutputDirectory e), st)
             | Inr (root, outputPath) \<Rightarrow>
                 if os_Stat root outputPath \<noteq> None
                 then (Some (TestFileAlreadyExists outputPath), st\<lparr>fsys := root\<rparr>)
                 else
                   let data = \<lparr>Package = packageName, Functions = functions\<rparr> in
                   (case os_Create root outputPath of
                      Inl e \<Rightarrow> (Some (FailedToCreateTestFile e), st\<lparr>fsys := root\<rparr>)
                    | Inr root1 \<Rightarrow>
                        (case file_Write root1 outputPath (Execute TestTemplate data) of
                           Inl e \<Rightarrow> (Some (FailedToExecuteTestTemplate e), st\<lparr>fsys := root1\<rparr>)
                         | Inr root2 \<Rightarrow>
                             (None, st\<lparr>fsys := root2,
                                       stdout := stdout st @ [GeneratedTestFile outputPath]\<rparr>)))))"

text \<open>
  Whether a path is the path of a Go source file that is not a test file:
  \<^verbatim>\<open>strings.HasSuffix(path, ".go") && !strings.HasSuffix(path, "_test.go")\<close>.
\<close>

definition is_go_source :: "path \<Rightarrow> bool" where
  "is_go_source p =
     (strings_HasSuffix (path_string p) ''.go'' \<and> \<not> strings_HasSuffix (path_string p) ''_test.go'')"

text \<open>
  The function that \<^verbatim>\<open>GenerateTests\<close> passes to \<^verbatim>\<open>filepath.Walk\<close>:
  \<^verbatim>\<open>
  func(path string, info os.FileInfo, err error) error {
      if err != nil { return err }
      if !info.IsDir() && strings.HasSuffix(path, ".go") && !strings.HasSuffix(path, "_test.go") {
          return generateTestForFile(path, outputDir, tableTests)
      }
      return nil
  }
  \<close>
\<close>

definition walkFn ::
  "(string \<Rightarrow> ast_File option) \<Rightarrow> (string \<Rightarrow> bool) \<Rightarrow> path option \<Rightarrow> bool \<Rightarrow> visit \<Rightarrow> state
     \<Rightarrow> error option \<times> state" where
  "walkFn parse upper outputDir tableTests v st =
     (case v of
        (p, None) \<Rightarrow> (Some (WalkError p), st)
      | (p, Some isDir) \<Rightarrow>
          if \<not> isDir \<and> is_go_source p
          then generateTestForFile parse upper p outputDir tableTests st
          else (None, st))"

text \<open>
  \<^verbatim>\<open>filepath.Walk\<close> with a function that may fail: the walk returns the first error that
  the function returns (the function of \<^verbatim>\<open>GenerateTests\<close> never returns
  \<^verbatim>\<open>filepath.SkipDir\<close> or \<^verbatim>\<open>filepath.SkipAll\<close>), and visits nothing after it.
\<close>

fun walk_loop ::
  "(visit \<Rightarrow> state \<Rightarrow> error option \<times> state) \<Rightarrow> visit list \<Rightarrow> state \<Rightarrow> error option \<times> state" where
  "walk_loop f [] st = (None, st)"
| "walk_loop f (v # vs) st =
     (case f v st of
        (Some err, st') \<Rightarrow> (Some err, st')
      | (None, st') \<Rightarrow> walk_loop f vs st')"

definition filepath_Walk ::
  "path \<Rightarrow> (visit \<Rightarrow> state \<Rightarrow> error option \<times> state) \<Rightarrow> state \<Rightarrow> error option \<times> state" where
  "filepath_Walk root f st =
     (case lookup (fsys st) root of
        None \<Rightarrow> f (root, None) st
      | Some n \<Rightarrow> walk_loop f (filepath_walk root n) st)"

text \<open>
  \<^verbatim>\<open>GenerateTests(path, outputDir, tableTests)\<close>, after \<^verbatim>\<open>filepath.Abs\<close>.
\<close>

definition GenerateTests ::
  "(string \<Rightarrow> ast_File option) \<Rightarrow> (string \<Rightarrow> bool) \<Rightarrow> path \<Rightarrow> path option \<Rightarrow> bool \<Rightarrow> state
     \<Rightarrow> error option \<times> state" where
  "GenerateTests parse upper absPath outputDir tableTests st =
     (let st0 = st\<lparr>stdout := stdout st @ [GeneratingTestsFor absPath]\<rparr> in
      case os_Stat (fsys st0) absPath of
        None \<Rightarrow> (Some FailedToStatPath, st0)
      | Some fi \<Rightarrow>
          if IsDir fi
          then filepath_Walk absPath (walkFn parse upper outputDir tableTests) st0
          else if is_go_source absPath
          then generateTestForFile parse upper absPath outputDir tableTests st0
          else (Some PathMustBeDirectoryOrGoFile, st0))"

text \<open>
  The candidate units of a walk: the visits on which the walk function calls
  \<^verbatim>\<open>generateTestForFile\<close>.
\<close>

definition candidates :: "visit list \<Rightarrow> path list" where
  "candidates vs = map fst (filter (\<lambda>v. snd v = Some False \<and> is_go_source (fst v)) vs)"

text \<open>
  The output path that \<^verbatim>\<open>generateTestForFile\<close> computes for a source file: the test file
  name in the directory of the source file, or in the output directory when one is given.
\<close>

definition output_path :: "path option \<Rightarrow> path \<Rightarrow> path" where
  "output_path outputDir p =
     (case outputDir of
        None \<Rightarrow> filepath_Join (filepath_Dir p) (test_file_name p)
      | Some dir \<Rightarrow> filepath_Join dir (test_file_name p))"

section \<open>Example inputs\<close>

text \<open>
  Three source texts and what the Go parser makes of them: a package with the exported
  function \<^verbatim>\<open>Area\<close>, the unexported function \<^verbatim>\<open>perimeter\<close> and the exported variable
  \<^verbatim>\<open>DefaultColor\<close>; a package with no exported function; and a text that is not Go.
\<close>

definition shapes_go :: string where
  "shapes_go =
     ''package shapes\<newline>\<newline>func Area() {}\<newline>\<newline>func perimeter() {}\<newline>\<newline>var DefaultColor = 1\<newline>''"

definition shapes_decls :: "Decl list" where
  "shapes_decls = [FuncDecl None ''Area'', FuncDecl None ''perimeter'', GenDecl [''DefaultColor'']]"

definition consts_go :: string where
  "consts_go = ''package shapes\<newline>\<newline>const Sides = 4\<newline>\<newline>func helper() {}\<newline>''"

definition consts_decls :: "Decl list" where
  "consts_decls = [GenDecl [''Sides''], FuncDecl None ''helper'']"

definition broken_go :: string where
  "broken_go = ''package shapes\<newline>\<newline>func Area( {''"

definition example_parse :: "string \<Rightarrow> ast_File option" where
  "example_parse src =
     (if src = shapes_go then Some \<lparr>File_Name = ''shapes'', File_Decls = shapes_decls\<rparr>
      else if src = consts_go then Some \<lparr>File_Name = ''shapes'', File_Decls = consts_decls\<rparr>
      else None)"

definition ascii_only :: "string \<Rightarrow> bool" where
  "ascii_only name = False"

text \<open>
  \<^verbatim>\<open>/proj\<close> with \<^verbatim>\<open>a.go\<close> (not Go) and \<^verbatim>\<open>b.go\<close> (the shapes package).
\<close>

definition broken_first_tree :: node where
  "broken_first_tree = Dir [(''proj'', Dir [(''a.go'', File broken_go), (''b.go'', File shapes_go)])]"

text \<open>
  \<^verbatim>\<open>/proj\<close> with the hidden file \<^verbatim>\<open>.draft.go\<close> and the hidden directory \<^verbatim>\<open>.hidden\<close>,
  which holds \<^verbatim>\<open>x.go\<close> (both files are the shapes package).
\<close>

definition hidden_tree :: node where
  "hidden_tree =
     Dir [(''proj'', Dir [(''.draft.go'', File shapes_go),
                          (''.hidden'', Dir [(''x.go'', File shapes_go)])])]"

text \<open>
  \<^verbatim>\<open>/proj\<close> with \<^verbatim>\<open>shapes.go\<close>, \<^verbatim>\<open>consts.go\<close> and a test file \<^verbatim>\<open>shapes_test.go\<close> written
  by hand.
\<close>

definition handwritten_test :: string where
  "handwritten_test = ''package shapes\<newline>\<newline>// written by hand\<newline>''"

definition collision_tree :: node where
  "collision_tree =
     Dir [(''proj'', Dir [(''consts.go'', File consts_go), (''shapes.go'', File shapes_go),
                          (''shapes_test.go'', File handwritten_test)])]"

text \<open>\<^verbatim>\<open>/proj\<close> with \<^verbatim>\<open>shapes.go\<close> alone.\<close>

definition single_tree :: node where
  "single_tree = Dir [(''proj'', Dir [(''shapes.go'', File shapes_go)])]"


text \<open>
  A source text with a method: the type \<^verbatim>\<open>Circle\<close> and the exported method \<^verbatim>\<open>Area\<close> on
  it, what the Go parser makes of it, and \<^verbatim>\<open>/proj\<close> with that file as \<^verbatim>\<open>circle.go\<close>.
\<close>

definition circle_go :: string where
  "circle_go =
     ''package shapes\<newline>\<newline>type Circle struct{}\<newline>\<newline>func (c Circle) Area() {}\<newline>''"

definition circle_decls :: "Decl list" where
  "circle_decls = [GenDecl [''Circle''], FuncDecl (Some ''Circle'') ''Area'']"

definition circle_parse :: "string \<Rightarrow> ast_File option" where
  "circle_parse src =
     (if src = circle_go then Some \<lparr>File_Name = ''shapes'', File_Decls = circle_decls\<rparr> else None)"

definition circle_tree :: node where
  "circle_tree = Dir [(''proj'', Dir [(''circle.go'', File circle_go)])]"


section \<open>Properties of the file system\<close>

lemma lookup_parent_dir:
  "lookup root (d @ [f]) = Some n \<Longrightarrow> \<exists>es. lookup root d = Some (Dir es)"
proof (induction d arbitrary: root)
  case Nil
  then show ?case by (cases root) simp_all
next
  case (Cons x d)
  then show ?case by (cases root) (auto split: option.splits)
qed

lemma MkdirAll_existing:
  "lookup root d = Some (Dir es) \<Longrightarrow> os_MkdirAll root d = Inr root"
proof (induction d arbitrary: root)
  case Nil
  then show ?case by simp
next
  case (Cons x d)
  then show ?case
    by (cases root) (auto split: option.splits simp: AList.update_triv)
qed

lemma Create_lookup:
  "os_Create root p = Inr root1 \<Longrightarrow> lookup root1 p = Some (File [])"
proof (induction p arbitrary: root root1)
  case Nil
  then show ?case by (cases root) auto
next
  case (Cons x p)
  then show ?case
    by (cases root) (auto split: option.splits sum.splits if_splits simp: AList.update_conv')
qed

lemma Write_lookup:
  "lookup root p = Some (File c) \<Longrightarrow>
   \<exists>root1. file_Write root p s = Inr root1 \<and> lookup root1 p = Some (File (c @ s))"
proof (induction p arbitrary: root)
  case Nil
  then show ?case by (cases root) auto
next
  case (Cons x p)
  show ?case
  proof (cases root)
    case (File c')
    with Cons.prems show ?thesis by simp
  next
    case (Dir es)
    with Cons.prems obtain ch where ch: "map_of es x = Some ch" "lookup ch p = Some (File c)"
      by (auto split: option.splits)
    from Cons.IH [OF ch(2)] obtain ch' where
      "file_Write ch p s = Inr ch'" "lookup ch' p = Some (File (c @ s))" by blast
    with Dir ch show ?thesis by (simp add: AList.update_conv')
  qed
qed




lemma MkdirAll_is_dir:
  "os_MkdirAll root d = Inr root1 \<Longrightarrow> \<exists>es. lookup root1 d = Some (Dir es)"
proof (induction d arbitrary: root root1)
  case Nil
  then show ?case by (cases root) auto
next
  case (Cons x d)
  then show ?case
    by (cases root) (auto split: option.splits sum.splits simp: AList.update_conv')
qed

lemma Create_succeeds:
  "lookup root d = Some (Dir es) \<Longrightarrow> lookup root (d @ [f]) = None \<Longrightarrow>
   \<exists>root1. os_Create root (d @ [f]) = Inr root1"
proof (induction d arbitrary: root)
  case Nil
  then show ?case by (cases root) (auto split: option.splits)
next
  case (Cons x d)
  show ?case
  proof (cases root)
    case (File c')
    with Cons.prems show ?thesis by simp
  next
    case (Dir es')
    with Cons.prems obtain ch where ch: "map_of es' x = Some ch" "lookup ch d = Some (Dir es)"
      "lookup ch (d @ [f]) = None"
      by (auto split: option.splits)
    from Cons.IH [OF ch(2,3)] obtain ch' where "os_Create ch (d @ [f]) = Inr ch'" by blast
    with Dir ch show ?thesis by simp
  qed
qed

section \<open>Properties of the symbol filter\<close>

lemma find_functions_append:
  "find_functions U t ds acc = acc @ testable_symbols U t ds"
  by (induction U t ds acc rule: find_functions.induct)
     (simp_all add: testable_symbols_def)

lemma exported_functions_eq:
  "exported_functions U t ds = testable_symbols U t ds"
  by (simp add: exported_functions_def find_functions_append)

lemma strip_receiver_functions:
  "exported_functions upper tableTests (map strip_receiver decls)
     = exported_functions upper tableTests decls"
  unfolding exported_functions_eq testable_symbols_def
proof (induction decls)
  case Nil
  show ?case by simp
next
  case (Cons x decls)
  then show ?case by (cases x) simp_all
qed

section \<open>Properties of the rendering\<close>

lemma no_straddle:
  "identChars t \<Longrightarrow> \<not> isIdentChar c \<Longrightarrow> pattern_ok p c \<Longrightarrow> prefix p (t @ c # b) = False"
proof (induction p arbitrary: t)
  case Nil
  then show ?case by (simp add: pattern_ok_def)
next
  case (Cons x p)
  show ?case
  proof (cases t)
    case Nil
    with Cons.prems show ?thesis
      by (auto simp: pattern_ok_def split: if_splits)
  next
    case (Cons y t')
    with Cons.prems have "pattern_ok p c \<or> x \<noteq> y"
      by (auto simp: pattern_ok_def identChars_def split: if_splits)
    moreover from Cons Cons.prems have "identChars t'"
      by (simp add: identChars_def)
    ultimately show ?thesis
      using Cons.IH [of t'] Cons.prems(2) Cons by auto
  qed
qed

lemma count_occ_ident:
  "identChars n \<Longrightarrow> \<not> isIdentChar c \<Longrightarrow> pattern_ok p c \<Longrightarrow>
   count_occ p (n @ c # b) = count_occ p (c # b)"
proof (induction n)
  case Nil
  then show ?case by simp
next
  case (Cons x n)
  then have i: "identChars n" and j: "identChars (x # n)"
    by (simp_all add: identChars_def)
  have "prefix p ((x # n) @ c # b) = False"
    using no_straddle [OF j Cons.prems(2,3)] .
  then show ?case
    using Cons.IH [OF i Cons.prems(2,3)] by simp
qed

lemmas count_eval = count_occ_ident no_straddle pattern_ok_def isIdentChar_def TAB_def

lemma test_block_table:
  \<open>TableDriven d \<Longrightarrow> test_block d =
     ''\<newline>func Test'' @ Name d @ ''(t *testing.T) {\<newline>'' @ TAB @ ''\<newline>'' @
        TAB @ ''tests := []struct {\<newline>'' @
        TAB @ TAB @ ''name string\<newline>'' @
        TAB @ TAB @ ''// TODO: Add test case inputs and expected outputs\<newline>'' @
        TAB @ ''}{\<newline>'' @
        TAB @ TAB @ ''{\<newline>'' @
        TAB @ TAB @ TAB @ ''name: "test case 1",\<newline>'' @
        TAB @ TAB @ ''},\<newline>'' @
        TAB @ TAB @ ''{\<newline>'' @
        TAB @ TAB @ TAB @ ''name: "test case 2",\<newline>'' @
        TAB @ TAB @ ''},\<newline>'' @
        TAB @ ''}\<newline>'' @
        TAB @ ''\<newline>'' @
        TAB @ ''for _, tt := range tests {\<newline>'' @
        TAB @ TAB @ ''t.Run(tt.name, func(t *testing.T) {\<newline>'' @
        TAB @ TAB @ TAB @ ''// TODO: Call '' @ Name d @
          '' with the test case inputs and verify outputs\<newline>'' @
        TAB @ TAB @ ''})\<newline>'' @
        TAB @ ''}\<newline>'' @
        TAB @ ''\<newline>}\<newline>''\<close>
  by (simp add: test_block_def exec_block_def FunctionBlock_def TableBranch_def)

lemma test_block_flat:
  \<open>\<not> TableDriven d \<Longrightarrow> test_block d =
     ''\<newline>func Test'' @ Name d @ ''(t *testing.T) {\<newline>'' @ TAB @ ''\<newline>'' @
        TAB @ ''// TODO: Write test for '' @ Name d @ ''\<newline>'' @ TAB @ ''\<newline>}\<newline>''\<close>
  by (simp add: test_block_def exec_block_def FunctionBlock_def FlatBranch_def)

lemma Execute_TestTemplate:
  \<open>Execute TestTemplate data =
     ''package '' @ Package data @ ''\<newline>\<newline>import (\<newline>'' @ TAB @ ''"testing"\<newline>)\<newline>\<newline>'' @
     concat (map test_block (Functions data)) @ ''\<newline>''\<close>
proof -
  have "exec_block FunctionBlock = test_block"
    by (rule ext) (simp add: test_block_def)
  then show ?thesis
    by (simp add: Execute_def TestTemplate_def)
qed

lemma concat_map_contains:
  "x \<in> set xs \<Longrightarrow> \<exists>a b. concat (map f xs) = a @ f x @ b"
proof -
  assume "x \<in> set xs"
  then obtain ys zs where "xs = ys @ x # zs"
    by (auto simp: in_set_conv_decomp)
  then have "concat (map f xs) = concat (map f ys) @ f x @ concat (map f zs)"
    by simp
  then show ?thesis by blast
qed

lemma Execute_contains_block:
  assumes "d \<in> set (Functions data)"
  shows "\<exists>a b. Execute TestTemplate data = a @ test_block d @ b"
proof -
  from concat_map_contains [OF assms, of test_block] obtain a b where
    "concat (map test_block (Functions data)) = a @ test_block d @ b"
    by blast
  then have \<open>Execute TestTemplate data =
      (''package '' @ Package data @ ''\<newline>\<newline>import (\<newline>'' @ TAB @ ''"testing"\<newline>)\<newline>\<newline>'' @ a) @
      test_block d @ (b @ ''\<newline>'')\<close>
    by (simp add: Execute_TestTemplate)
  then show ?thesis by blast
qed

section \<open>The outcome of one unit\<close>

lemma test_file_name_stem:
  "filepath_Base p = stem @ ''.go'' \<Longrightarrow> test_file_name p = stem @ ''_test.go''"
  by (simp add: test_file_name_def strings_TrimSuffix_def strings_HasSuffix_def suffix_def)

lemma go_source_base:
  assumes "is_go_source p"
  shows "\<exists>stem. filepath_Base p = stem @ ''.go''"
proof (cases p rule: rev_cases)
  case Nil
  with assms show ?thesis
    by (simp add: is_go_source_def path_string_def strings_HasSuffix_def suffix_Cons)
next
  case (snoc d l)
  then obtain a where "path_string p = a @ CHR ''/'' # l"
    by (simp add: path_string_def)
  with assms have "suffix ''.go'' (a @ CHR ''/'' # l)"
    by (simp add: is_go_source_def strings_HasSuffix_def)
  then have "suffix ''.go'' (CHR ''/'' # l)"
    unfolding suffix_append by (auto simp: Cons_eq_append_conv)
  then have "suffix ''.go'' l"
    by (simp add: suffix_Cons)
  then obtain stem where "l = stem @ ''.go''"
    by (auto simp: suffix_def)
  with snoc show ?thesis
    by (simp add: filepath_Base_def)
qed

lemma generate_refuses_existing:
  assumes "parser_ParseFile parse (fsys st) p = Inr node"
    and "exported_functions upper tableTests (File_Decls node) \<noteq> []"
    and "lookup (fsys st) (output_path outputDir p) = Some n"
  shows "generateTestForFile parse upper p outputDir tableTests st =
           (Some (TestFileAlreadyExists (output_path outputDir p)), st)"
proof (cases outputDir)
  case None
  with assms show ?thesis
    by (simp add: generateTestForFile_def output_path_def os_Stat_def)
next
  case (Some d)
  with assms(3) have "lookup (fsys st) (d @ [test_file_name p]) = Some n"
    by (simp add: output_path_def filepath_Join_def)
  then obtain es where "lookup (fsys st) d = Some (Dir es)"
    using lookup_parent_dir by blast
  then have "os_MkdirAll (fsys st) d = Inr (fsys st)"
    by (rule MkdirAll_existing)
  with assms Some show ?thesis
    by (simp add: generateTestForFile_def output_path_def os_Stat_def)
qed

lemma generate_success:
  assumes "parser_ParseFile parse (fsys st) p = Inr node"
    and "exported_functions upper tableTests (File_Decls node) \<noteq> []"
    and "generateTestForFile parse upper p outputDir tableTests st = (None, st')"
  shows "lookup (fsys st') (output_path outputDir p) =
           Some (File (Execute TestTemplate
             \<lparr>Package = File_Name node,
              Functions = exported_functions upper tableTests (File_Decls node)\<rparr>)) \<and>
         stdout st' = stdout st @ [GeneratedTestFile (output_path outputDir p)]"
proof -
  let ?out = "output_path outputDir p"
  let ?text = "Execute TestTemplate
                 \<lparr>Package = File_Name node,
                  Functions = exported_functions upper tableTests (File_Decls node)\<rparr>"
  obtain root where root:
    "(case outputDir of None \<Rightarrow> Inr (fsys st) | Some d \<Rightarrow> os_MkdirAll (fsys st) d) = Inr root"
    using assms
    by (auto simp: generateTestForFile_def Let_def split: option.splits sum.splits if_splits)
  obtain root1 where c: "os_Create root ?out = Inr root1"
    using assms root
    by (auto simp: generateTestForFile_def Let_def output_path_def
             split: option.splits sum.splits if_splits)
  have l1: "lookup root1 ?out = Some (File [])"
    using c by (rule Create_lookup)
  from Write_lookup [OF l1, of ?text] obtain root2 where
    w: "file_Write root1 ?out ?text = Inr root2" "lookup root2 ?out = Some (File ?text)"
    by auto
  have "st' = st\<lparr>fsys := root2, stdout := stdout st @ [GeneratedTestFile ?out]\<rparr>"
    using assms root c w
    by (auto simp: generateTestForFile_def Let_def output_path_def
             split: option.splits sum.splits if_splits)
  then show ?thesis
    using w by simp
qed


lemma generate_progress:
  assumes parse: "parser_ParseFile parse (fsys st) p = Inr node"
    and fns: "exported_functions upper tableTests (File_Decls node) \<noteq> []"
    and mk: "(case outputDir of None \<Rightarrow> Inr (fsys st) | Some dir \<Rightarrow> os_MkdirAll (fsys st) dir)
               = Inr root"
    and dir: "lookup root (case outputDir of None \<Rightarrow> filepath_Dir p | Some dir \<Rightarrow> dir) = Some (Dir es)"
    and free: "lookup root (output_path outputDir p) = None"
  shows "fst (generateTestForFile parse upper p outputDir tableTests st) = None"
proof -
  let ?out = "output_path outputDir p"
  let ?text = "Execute TestTemplate
                 \<lparr>Package = File_Name node,
                  Functions = exported_functions upper tableTests (File_Decls node)\<rparr>"
  have out: "?out = (case outputDir of None \<Rightarrow> filepath_Dir p | Some dir \<Rightarrow> dir) @ [test_file_name p]"
    by (simp add: output_path_def filepath_Join_def split: option.splits)
  from Create_succeeds [OF dir free [unfolded out]] obtain root1 where
    c: "os_Create root ?out = Inr root1"
    unfolding out by blast
  have l1: "lookup root1 ?out = Some (File [])"
    using c by (rule Create_lookup)
  from Write_lookup [OF l1, of ?text] obtain root2 where
    w: "file_Write root1 ?out ?text = Inr root2"
    by auto
  show ?thesis
    using parse fns mk free c w
    by (auto simp: generateTestForFile_def Let_def output_path_def os_Stat_def
             split: option.splits sum.splits)
qed



lemma walk_loop_append:
  "walk_loop f vs st = (None, st1) \<Longrightarrow> walk_loop f (vs @ rest) st = walk_loop f rest st1"
proof (induction vs arbitrary: st)
  case Nil
  then show ?case by simp
next
  case (Cons v vs)
  then show ?case by (auto split: prod.splits option.splits)
qed

section \<open>The claims\<close>

text \<open>
  Claim C1, as the code has it. For a run whose root is a directory, the first unit whose
  processing returns an error ends the run: when the visits before it went through without
  an error and the walk function fails on it, \<^verbatim>\<open>GenerateTests\<close> returns that error and
  the state of that moment, whatever the walk would have visited next. No later candidate
  is processed.
\<close>

theorem first_failure_aborts_walk:
  assumes dir: "lookup (fsys st) absPath = Some (Dir es)"
    and visits: "filepath_walk absPath (Dir es) = vs @ v # ws"
    and before: "walk_loop (walkFn parse upper outputDir tableTests) vs
                   (st\<lparr>stdout := stdout st @ [GeneratingTestsFor absPath]\<rparr>) = (None, st1)"
    and fails: "walkFn parse upper outputDir tableTests v st1 = (Some err, st2)"
  shows "GenerateTests parse upper absPath outputDir tableTests st = (Some err, st2)"
proof -
  let ?f = "walkFn parse upper outputDir tableTests"
  let ?st0 = "st\<lparr>stdout := stdout st @ [GeneratingTestsFor absPath]\<rparr>"
  have "walk_loop ?f (vs @ v # ws) ?st0 = walk_loop ?f (v # ws) st1"
    using before by (rule walk_loop_append)
  also have "\<dots> = (Some err, st2)"
    using fails by simp
  finally show ?thesis
    using dir visits by (simp add: GenerateTests_def os_Stat_def filepath_Walk_def)
qed

theorem first_failure_aborts_walk_witness:
  "GenerateTests example_parse ascii_only [''proj''] None False
       \<lparr>fsys = broken_first_tree, stdout = []\<rparr>
     = (Some (FailedToParseGoFile SyntaxError),
        \<lparr>fsys = broken_first_tree, stdout = [GeneratingTestsFor [''proj'']]\<rparr>)"
proof -
  let ?st = "\<lparr>fsys = broken_first_tree, stdout = []\<rparr>"
  let ?es = "[(''a.go'', File broken_go), (''b.go'', File shapes_go)]"
  have h1: "lookup (fsys ?st) [''proj''] = Some (Dir ?es)"
    by code_simp
  have h2: "filepath_walk [''proj''] (Dir ?es) =
              [([''proj''], Some True)] @
              ([''proj'', ''a.go''], Some False) # [([''proj'', ''b.go''], Some False)]"
    by code_simp
  have h3: "walk_loop (walkFn example_parse ascii_only None False) [([''proj''], Some True)]
              (?st\<lparr>stdout := stdout ?st @ [GeneratingTestsFor [''proj'']]\<rparr>)
            = (None, \<lparr>fsys = broken_first_tree, stdout = [GeneratingTestsFor [''proj'']]\<rparr>)"
    by code_simp
  have h4: "walkFn example_parse ascii_only None False ([''proj'', ''a.go''], Some False)
              \<lparr>fsys = broken_first_tree, stdout = [GeneratingTestsFor [''proj'']]\<rparr>
            = (Some (FailedToParseGoFile SyntaxError),
               \<lparr>fsys = broken_first_tree, stdout = [GeneratingTestsFor [''proj'']]\<rparr>)"
    by code_simp
  show ?thesis
    using first_failure_aborts_walk [OF h1 h2 h3 h4] .
qed

text \<open>
  Claim C1 as stated fails. In \<^verbatim>\<open>/proj\<close> the walk finds the candidates \<^verbatim>\<open>a.go\<close> and then
  \<^verbatim>\<open>b.go\<close>. Processed alone, \<^verbatim>\<open>b.go\<close> gets its test file. In the run over the directory the
  parse error of \<^verbatim>\<open>a.go\<close> is the result, nothing is printed for \<^verbatim>\<open>b.go\<close> and the file
  system is as before: \<^verbatim>\<open>b_test.go\<close> does not exist.
\<close>

theorem failure_aborts_batch_counterexample:
  "candidates (filepath_walk [''proj'']
       (Dir [(''a.go'', File broken_go), (''b.go'', File shapes_go)]))
     = [[''proj'', ''a.go''], [''proj'', ''b.go'']] \<and>
   fst (generateTestForFile example_parse ascii_only [''proj'', ''b.go''] None False
          \<lparr>fsys = broken_first_tree, stdout = []\<rparr>) = None \<and>
   lookup (fsys (snd (generateTestForFile example_parse ascii_only [''proj'', ''b.go''] None False
          \<lparr>fsys = broken_first_tree, stdout = []\<rparr>))) [''proj'', ''b_test.go''] \<noteq> None \<and>
   GenerateTests example_parse ascii_only [''proj''] None False
       \<lparr>fsys = broken_first_tree, stdout = []\<rparr>
     = (Some (FailedToParseGoFile SyntaxError),
        \<lparr>fsys = broken_first_tree, stdout = [GeneratingTestsFor [''proj'']]\<rparr>) \<and>
   lookup broken_first_tree [''proj'', ''b_test.go''] = None"
  by code_simp

text \<open>
  Claim C2 fails on the code. The walk function of \<^verbatim>\<open>GenerateTests\<close> has no test for a
  leading dot (the walk of the analyzer has one). In \<^verbatim>\<open>/proj\<close> the hidden file
  \<^verbatim>\<open>.draft.go\<close> and the file \<^verbatim>\<open>x.go\<close> below the hidden directory \<^verbatim>\<open>.hidden\<close> are both
  candidates, the run succeeds, and a test file is written for each of them.
\<close>

theorem hidden_entries_are_walked:
  "candidates (filepath_walk [''proj'']
       (Dir [(''.draft.go'', File shapes_go), (''.hidden'', Dir [(''x.go'', File shapes_go)])]))
     = [[''proj'', ''.draft.go''], [''proj'', ''.hidden'', ''x.go'']] \<and>
   fst (GenerateTests example_parse ascii_only [''proj''] None False
          \<lparr>fsys = hidden_tree, stdout = []\<rparr>) = None \<and>
   stdout (snd (GenerateTests example_parse ascii_only [''proj''] None False
                  \<lparr>fsys = hidden_tree, stdout = []\<rparr>))
     = [GeneratingTestsFor [''proj''],
        GeneratedTestFile [''proj'', ''.draft_test.go''],
        GeneratedTestFile [''proj'', ''.hidden'', ''x_test.go'']] \<and>
   lookup hidden_tree [''proj'', ''.hidden'', ''x_test.go''] = None \<and>
   lookup (fsys (snd (GenerateTests example_parse ascii_only [''proj''] None False
                        \<lparr>fsys = hidden_tree, stdout = []\<rparr>)))
          [''proj'', ''.hidden'', ''x_test.go'']
     = Some (File (Execute TestTemplate
         \<lparr>Package = ''shapes'', Functions = [\<lparr>Name = ''Area'', TableDriven = False\<rparr>]\<rparr>))"
  by code_simp

text \<open>
  Claim C3. The output path is computed for a unit that parses and has an exported
  function. When an entry exists at that path, \<^verbatim>\<open>generateTestForFile\<close> fails with the
  error that the test file already exists, and the state it leaves is the state it found:
  no file is created, opened or written, so the existing file keeps its bytes.
\<close>

theorem existing_test_file_never_overwritten:
  assumes "parser_ParseFile parse (fsys st) p = Inr node"
    and "exported_functions upper tableTests (File_Decls node) \<noteq> []"
    and "lookup (fsys st) (output_path outputDir p) = Some n"
  shows "generateTestForFile parse upper p outputDir tableTests st =
           (Some (TestFileAlreadyExists (output_path outputDir p)), st) \<and>
         lookup (fsys (snd (generateTestForFile parse upper p outputDir tableTests st)))
           (output_path outputDir p) = Some n"
  using generate_refuses_existing [OF assms] assms(3) by simp

theorem existing_test_file_never_overwritten_witness:
  "lookup collision_tree (output_path None [''proj'', ''shapes.go''])
     = Some (File handwritten_test) \<and>
   generateTestForFile example_parse ascii_only [''proj'', ''shapes.go''] None True
       \<lparr>fsys = collision_tree, stdout = []\<rparr>
     = (Some (TestFileAlreadyExists [''proj'', ''shapes_test.go'']),
        \<lparr>fsys = collision_tree, stdout = []\<rparr>)"
proof -
  have h1: "parser_ParseFile example_parse (fsys \<lparr>fsys = collision_tree, stdout = []\<rparr>)
              [''proj'', ''shapes.go''] = Inr \<lparr>File_Name = ''shapes'', File_Decls = shapes_decls\<rparr>"
    by code_simp
  have h2: "exported_functions ascii_only True
              (File_Decls \<lparr>File_Name = ''shapes'', File_Decls = shapes_decls\<rparr>) \<noteq> []"
    by code_simp
  have h3: "lookup (fsys \<lparr>fsys = collision_tree, stdout = []\<rparr>)
              (output_path None [''proj'', ''shapes.go'']) = Some (File handwritten_test)"
    by code_simp
  have h4: "output_path None [''proj'', ''shapes.go''] = [''proj'', ''shapes_test.go'']"
    by code_simp
  show ?thesis
    using h3 h4 existing_test_file_never_overwritten [OF h1 h2 h3] by simp
qed

text \<open>
  Claim C4. A source unit that parses and has no exported function declaration is skipped:
  \<^verbatim>\<open>generateTestForFile\<close> returns nil, prints that no exported functions were found, and
  leaves the file system as it was, so no output file is written.
\<close>

theorem no_exported_functions_skipped:
  assumes "parser_ParseFile parse (fsys st) p = Inr node"
    and "exported_functions upper tableTests (File_Decls node) = []"
  shows "generateTestForFile parse upper p outputDir tableTests st =
           (None, st\<lparr>stdout := stdout st @ [NoExportedFunctionsFound p]\<rparr>)"
  using assms by (simp add: generateTestForFile_def)

theorem no_exported_functions_skipped_witness:
  "parser_ParseFile example_parse collision_tree [''proj'', ''consts.go'']
     = Inr \<lparr>File_Name = ''shapes'', File_Decls = consts_decls\<rparr> \<and>
   exported_functions ascii_only True consts_decls = [] \<and>
   generateTestForFile example_parse ascii_only [''proj'', ''consts.go''] (Some [''out'']) True
       \<lparr>fsys = collision_tree, stdout = []\<rparr>
     = (None, \<lparr>fsys = collision_tree,
               stdout = [NoExportedFunctionsFound [''proj'', ''consts.go'']]\<rparr>)"
proof -
  have h1: "parser_ParseFile example_parse (fsys \<lparr>fsys = collision_tree, stdout = []\<rparr>)
              [''proj'', ''consts.go''] = Inr \<lparr>File_Name = ''shapes'', File_Decls = consts_decls\<rparr>"
    by code_simp
  have h2: "exported_functions ascii_only True
              (File_Decls \<lparr>File_Name = ''shapes'', File_Decls = consts_decls\<rparr>) = []"
    by code_simp
  show ?thesis
    using h1 h2 no_exported_functions_skipped [OF h1 h2, of "Some [''out'']"] by simp
qed

text \<open>
  Claim C5. The functions that \<^verbatim>\<open>generateTestForFile\<close> collects are the declarations
  that are functions with an exported name, in the order of the source. For the package
  \<^verbatim>\<open>shapes\<close> with the functions \<^verbatim>\<open>Area\<close> and \<^verbatim>\<open>perimeter\<close> and the variable
  \<^verbatim>\<open>DefaultColor\<close>, the one function selected is \<^verbatim>\<open>Area\<close>, and the rendered text has one
  test function, \<^verbatim>\<open>TestArea\<close>, and mentions neither \<^verbatim>\<open>perimeter\<close> nor \<^verbatim>\<open>DefaultColor\<close>.
\<close>

theorem exported_functions_in_source_order:
  \<open>exported_functions upper tableTests decls = testable_symbols upper tableTests decls \<and>
   exported_functions upper tableTests shapes_decls = [\<lparr>Name = ''Area'', TableDriven = tableTests\<rparr>] \<and>
   (let out = Execute TestTemplate
                \<lparr>Package = ''shapes'', Functions = exported_functions upper tableTests shapes_decls\<rparr>
    in count_occ ''func Test'' out = 1 \<and>
       count_occ ''func TestArea(t *testing.T) {'' out = 1 \<and>
       count_occ ''perimeter'' out = 0 \<and>
       count_occ ''DefaultColor'' out = 0 \<and>
       GenerateTests example_parse upper [''proj'', ''shapes.go''] None tableTests
           \<lparr>fsys = single_tree, stdout = []\<rparr>
         = (None,
            \<lparr>fsys = Dir [(''proj'', Dir [(''shapes.go'', File shapes_go),
                                         (''shapes_test.go'', File out)])],
             stdout = [GeneratingTestsFor [''proj'', ''shapes.go''],
                       GeneratedTestFile [''proj'', ''shapes_test.go'']]\<rparr>))\<close>
proof -
  have sel: "exported_functions upper tableTests shapes_decls
               = [\<lparr>Name = ''Area'', TableDriven = tableTests\<rparr>]"
    by (simp add: exported_functions_def shapes_decls_def IsExported_def)
  have cnt: \<open>let out = Execute TestTemplate
                \<lparr>Package = ''shapes'', Functions = [\<lparr>Name = ''Area'', TableDriven = tableTests\<rparr>]\<rparr>
    in count_occ ''func Test'' out = 1 \<and>
       count_occ ''func TestArea(t *testing.T) {'' out = 1 \<and>
       count_occ ''perimeter'' out = 0 \<and>
       count_occ ''DefaultColor'' out = 0\<close>
    by (cases tableTests)
       (simp_all add: Execute_TestTemplate test_block_table test_block_flat TAB_def)
  have src: "is_go_source [''proj'', ''shapes.go'']"
    by code_simp
  have nm: "test_file_name [''proj'', ''shapes.go''] = ''shapes_test.go''"
    by code_simp
  have run: "GenerateTests example_parse upper [''proj'', ''shapes.go''] None tableTests
       \<lparr>fsys = single_tree, stdout = []\<rparr>
     = (None,
        \<lparr>fsys = Dir [(''proj'', Dir [(''shapes.go'', File shapes_go),
                     (''shapes_test.go'', File (Execute TestTemplate
                        \<lparr>Package = ''shapes'',
                         Functions = [\<lparr>Name = ''Area'', TableDriven = tableTests\<rparr>]\<rparr>))])],
         stdout = [GeneratingTestsFor [''proj'', ''shapes.go''],
                   GeneratedTestFile [''proj'', ''shapes_test.go'']]\<rparr>)"
    by (simp add: GenerateTests_def os_Stat_def single_tree_def src generateTestForFile_def
      parser_ParseFile_def example_parse_def sel nm filepath_Dir_def filepath_Join_def)
  show ?thesis
    using exported_functions_eq sel cnt run by (simp add: Let_def)
qed

text \<open>
  Claim C6. The rendered text is the header followed by one test block per function. The
  block of a function rendered with the table-driven flag, whose name is made of identifier
  characters, has two named cases, one named \<^verbatim>\<open>test case 1\<close> and one named
  \<^verbatim>\<open>test case 2\<close>, however many functions the request has.
\<close>

theorem table_driven_block_two_cases:
  assumes "d \<in> set (Functions data)" and "TableDriven d" and "identChars (Name d)"
  shows \<open>Execute TestTemplate data =
           ''package '' @ Package data @ ''\<newline>\<newline>import (\<newline>'' @ TAB @ ''"testing"\<newline>)\<newline>\<newline>'' @
           concat (map test_block (Functions data)) @ ''\<newline>'' \<and>
         count_occ ''name: "'' (test_block d) = 2 \<and>
         count_occ ''name: "test case 1",'' (test_block d) = 1 \<and>
         count_occ ''name: "test case 2",'' (test_block d) = 1\<close>
proof -
  have a: \<open>count_occ ''name: "'' (test_block d) = 2\<close>
    using assms(2,3) by (simp add: test_block_table count_eval)
  have b: \<open>count_occ ''name: "test case 1",'' (test_block d) = 1\<close>
    using assms(2,3) by (simp add: test_block_table count_eval)
  have c: \<open>count_occ ''name: "test case 2",'' (test_block d) = 1\<close>
    using assms(2,3) by (simp add: test_block_table count_eval)
  from a b c show ?thesis
    using Execute_TestTemplate by blast
qed

theorem table_driven_block_two_cases_witness:
  \<open>count_occ ''name: "'' (test_block \<lparr>Name = ''Area'', TableDriven = True\<rparr>) = 2 \<and>
   count_occ ''name: "test case 1",'' (test_block \<lparr>Name = ''Area'', TableDriven = True\<rparr>) = 1 \<and>
   count_occ ''name: "test case 2",'' (test_block \<lparr>Name = ''Area'', TableDriven = True\<rparr>) = 1\<close>
proof -
  let ?d = "\<lparr>Name = ''Area'', TableDriven = True\<rparr>"
  let ?data = "\<lparr>Package = ''shapes'', Functions = [\<lparr>Name = ''Parse'', TableDriven = True\<rparr>, ?d]\<rparr>"
  have h1: "?d \<in> set (Functions ?data)" by simp
  have h2: "TableDriven ?d" by simp
  have h3: "identChars (Name ?d)" by (simp add: identChars_def isIdentChar_def)
  show ?thesis
    using table_driven_block_two_cases [OF h1 h2 h3] by blast
qed

text \<open>
  Claim C7. The block of a function rendered without the table-driven flag is the test
  function with one comment, \<^verbatim>\<open>// TODO: Write test for\<close> and the name. For a name made of
  identifier characters it has no other comment, no list of cases, no named case, no loop
  over cases and no subtest.
\<close>

theorem flat_block_single_placeholder:
  assumes "d \<in> set (Functions data)" and "\<not> TableDriven d" and "identChars (Name d)"
  shows \<open>Execute TestTemplate data =
           ''package '' @ Package data @ ''\<newline>\<newline>import (\<newline>'' @ TAB @ ''"testing"\<newline>)\<newline>\<newline>'' @
           concat (map test_block (Functions data)) @ ''\<newline>'' \<and>
         test_block d =
           ''\<newline>func Test'' @ Name d @ ''(t *testing.T) {\<newline>'' @ TAB @ ''\<newline>'' @
           TAB @ ''// TODO: Write test for '' @ Name d @ ''\<newline>'' @ TAB @ ''\<newline>}\<newline>'' \<and>
         count_occ ''//'' (test_block d) = 1 \<and>
         count_occ ''tests := '' (test_block d) = 0 \<and>
         count_occ ''[]struct'' (test_block d) = 0 \<and>
         count_occ ''name: '' (test_block d) = 0 \<and>
         count_occ ''range tests'' (test_block d) = 0 \<and>
         count_occ ''t.Run('' (test_block d) = 0\<close>
proof -
  have a: \<open>count_occ ''//'' (test_block d) = 1\<close>
    using assms(2,3) by (simp add: test_block_flat count_eval)
  have b: \<open>count_occ ''tests := '' (test_block d) = 0\<close>
    using assms(2,3) by (simp add: test_block_flat count_eval)
  have c: \<open>count_occ ''[]struct'' (test_block d) = 0\<close>
    using assms(2,3) by (simp add: test_block_flat count_eval)
  have e: \<open>count_occ ''name: '' (test_block d) = 0\<close>
    using assms(2,3) by (simp add: test_block_flat count_eval)
  have f: \<open>count_occ ''range tests'' (test_block d) = 0\<close>
    using assms(2,3) by (simp add: test_block_flat count_eval)
  have g: \<open>count_occ ''t.Run('' (test_block d) = 0\<close>
    using assms(2,3) by (simp add: test_block_flat count_eval)
  from a b c e f g test_block_flat [OF assms(2)] show ?thesis
    using Execute_TestTemplate by blast
qed

theorem flat_block_single_placeholder_witness:
  \<open>test_block \<lparr>Name = ''Parse'', TableDriven = False\<rparr> =
     ''\<newline>func TestParse(t *testing.T) {\<newline>'' @ TAB @ ''\<newline>'' @
     TAB @ ''// TODO: Write test for Parse\<newline>'' @ TAB @ ''\<newline>}\<newline>'' \<and>
   count_occ ''//'' (test_block \<lparr>Name = ''Parse'', TableDriven = False\<rparr>) = 1 \<and>
   count_occ ''name: '' (test_block \<lparr>Name = ''Parse'', TableDriven = False\<rparr>) = 0 \<and>
   count_occ ''range tests'' (test_block \<lparr>Name = ''Parse'', TableDriven = False\<rparr>) = 0\<close>
proof -
  let ?d = "\<lparr>Name = ''Parse'', TableDriven = False\<rparr>"
  let ?data = "\<lparr>Package = ''config'', Functions = [?d]\<rparr>"
  have h1: "?d \<in> set (Functions ?data)" by simp
  have h2: "\<not> TableDriven ?d" by simp
  have h3: "identChars (Name ?d)" by (simp add: identChars_def isIdentChar_def)
  show ?thesis
    using flat_block_single_placeholder [OF h1 h2 h3] by (simp add: TAB_def)
qed

text \<open>
  Claim C8. Let the path of a unit that parses and has an exported function be the
  directory \<open>d\<close> followed by the file name \<open>stem\<close> with the suffix \<^verbatim>\<open>.go\<close>. The output path
  that \<^verbatim>\<open>generateTestForFile\<close> computes is the file name \<open>stem\<close> with the suffix
  \<^verbatim>\<open>_test.go\<close>, in \<open>d\<close> when no output directory is given and in the output directory
  otherwise. When the call returns nil, the rendered text is the content of the file at
  that path, the line printed names that path, and the directory exists. The call does
  return nil whenever the directory could be made (it is \<open>d\<close>, or \<^verbatim>\<open>os.MkdirAll\<close> made the
  output directory or found it) and nothing exists at the output path; and the path in an
  error that the test file already exists is that path.
\<close>

theorem output_path_rule:
  assumes parse: "parser_ParseFile parse (fsys st) p = Inr node"
    and fns: "exported_functions upper tableTests (File_Decls node) \<noteq> []"
    and p: "p = d @ [stem @ ''.go'']"
  shows "let dir = (case outputDir of None \<Rightarrow> d | Some override \<Rightarrow> override);
             out = dir @ [stem @ ''_test.go''];
             res = generateTestForFile parse upper p outputDir tableTests st
         in output_path outputDir p = out \<and>
            (fst res = None \<longrightarrow>
               lookup (fsys (snd res)) out =
                 Some (File (Execute TestTemplate
                   \<lparr>Package = File_Name node,
                    Functions = exported_functions upper tableTests (File_Decls node)\<rparr>)) \<and>
               stdout (snd res) = stdout st @ [GeneratedTestFile out] \<and>
               (\<exists>es. lookup (fsys (snd res)) dir = Some (Dir es))) \<and>
            (\<forall>root. (case outputDir of None \<Rightarrow> Inr (fsys st)
                                      | Some override \<Rightarrow> os_MkdirAll (fsys st) override) = Inr root \<and>
                    lookup root out = None \<longrightarrow> fst res = None) \<and>
            (\<forall>q. fst res = Some (TestFileAlreadyExists q) \<longrightarrow> q = out)"
proof -
  define dir where "dir = (case outputDir of None \<Rightarrow> d | Some override \<Rightarrow> override)"
  define out where "out = dir @ [stem @ ''_test.go'']"
  define res where "res = generateTestForFile parse upper p outputDir tableTests st"
  have base: "filepath_Base p = stem @ ''.go''"
    using p by (simp add: filepath_Base_def)
  have pdir: "filepath_Dir p = d"
    using p by (simp add: filepath_Dir_def)
  have dir': "dir = (case outputDir of None \<Rightarrow> filepath_Dir p | Some override \<Rightarrow> override)"
    by (simp add: dir_def pdir split: option.splits)
  have eq: "output_path outputDir p = out"
    using test_file_name_stem [OF base]
    by (simp add: output_path_def out_def dir_def pdir filepath_Join_def split: option.splits)
  have a: "lookup (fsys (snd res)) out =
                 Some (File (Execute TestTemplate
                   \<lparr>Package = File_Name node,
                    Functions = exported_functions upper tableTests (File_Decls node)\<rparr>)) \<and>
               stdout (snd res) = stdout st @ [GeneratedTestFile out] \<and>
               (\<exists>es. lookup (fsys (snd res)) dir = Some (Dir es))" if ok: "fst res = None"
  proof -
    from ok have run: "generateTestForFile parse upper p outputDir tableTests st = (None, snd res)"
      by (simp add: res_def prod_eq_iff)
    note s = generate_success [OF parse fns run, unfolded eq]
    then have "lookup (fsys (snd res)) (dir @ [stem @ ''_test.go'']) \<noteq> None"
      by (simp add: out_def)
    then obtain es where "lookup (fsys (snd res)) dir = Some (Dir es)"
      using lookup_parent_dir by blast
    with s show ?thesis by blast
  qed
  have b: "fst res = None"
    if mk: "(case outputDir of None \<Rightarrow> Inr (fsys st)
                            | Some override \<Rightarrow> os_MkdirAll (fsys st) override) = Inr root"
      and free: "lookup root out = None" for root
  proof -
    have "\<exists>es. lookup root dir = Some (Dir es)"
    proof (cases outputDir)
      case None
      from parse obtain src where "lookup (fsys st) p = Some (File src)"
        by (auto simp: parser_ParseFile_def split: option.splits node.splits)
      then have "\<exists>es. lookup (fsys st) d = Some (Dir es)"
        unfolding p by (rule lookup_parent_dir)
      with None mk show ?thesis by (simp add: dir_def)
    next
      case (Some override)
      with mk show ?thesis
        by (simp add: dir_def MkdirAll_is_dir)
    qed
    then obtain es where "lookup root dir = Some (Dir es)" by blast
    from generate_progress [OF parse fns mk this [unfolded dir'] free [folded eq]]
    show ?thesis by (simp add: res_def)
  qed
  have c: "q = out" if "fst res = Some (TestFileAlreadyExists q)" for q
    using that parse fns eq
    by (auto simp: res_def generateTestForFile_def Let_def output_path_def
             split: option.splits sum.splits if_splits)
  from eq a b c show ?thesis
    unfolding Let_def dir_def [symmetric] out_def [symmetric] res_def [symmetric] by blast
qed

theorem output_path_rule_witness:
  "lookup single_tree [''proj'', ''shapes_test.go''] = None \<and>
   fst (generateTestForFile example_parse ascii_only [''proj'', ''shapes.go''] None True
          \<lparr>fsys = single_tree, stdout = []\<rparr>) = None \<and>
   output_path None [''proj'', ''shapes.go''] = [''proj'', ''shapes_test.go''] \<and>
   lookup (fsys (snd (generateTestForFile example_parse ascii_only [''proj'', ''shapes.go'']
                        None True \<lparr>fsys = single_tree, stdout = []\<rparr>)))
          [''proj'', ''shapes_test.go'']
     = Some (File (Execute TestTemplate
         \<lparr>Package = ''shapes'', Functions = exported_functions ascii_only True shapes_decls\<rparr>)) \<and>
   lookup single_tree [''out''] = None \<and>
   fst (generateTestForFile example_parse ascii_only [''proj'', ''shapes.go''] (Some [''out'']) True
          \<lparr>fsys = single_tree, stdout = []\<rparr>) = None \<and>
   output_path (Some [''out'']) [''proj'', ''shapes.go''] = [''out'', ''shapes_test.go''] \<and>
   lookup (fsys (snd (generateTestForFile example_parse ascii_only [''proj'', ''shapes.go'']
                        (Some [''out'']) True \<lparr>fsys = single_tree, stdout = []\<rparr>)))
          [''out'', ''shapes_test.go'']
     = Some (File (Execute TestTemplate
         \<lparr>Package = ''shapes'', Functions = exported_functions ascii_only True shapes_decls\<rparr>)) \<and>
   (\<exists>es. lookup (fsys (snd (generateTestForFile example_parse ascii_only [''proj'', ''shapes.go'']
                        (Some [''out'']) True \<lparr>fsys = single_tree, stdout = []\<rparr>)))
          [''out''] = Some (Dir es))"
proof -
  let ?st = "\<lparr>fsys = single_tree, stdout = []\<rparr>"
  let ?made = "Dir [(''proj'', Dir [(''shapes.go'', File shapes_go)]), (''out'', Dir [])]"
  have h1: "parser_ParseFile example_parse (fsys ?st) [''proj'', ''shapes.go'']
              = Inr \<lparr>File_Name = ''shapes'', File_Decls = shapes_decls\<rparr>"
    by code_simp
  have h2: "exported_functions ascii_only True
              (File_Decls \<lparr>File_Name = ''shapes'', File_Decls = shapes_decls\<rparr>) \<noteq> []"
    by code_simp
  have h3: "[''proj'', ''shapes.go''] = [''proj''] @ [''shapes'' @ ''.go'']"
    by simp
  have f0: "lookup single_tree [''proj'', ''shapes_test.go''] = None"
    by code_simp
  have f1: "lookup single_tree [''out''] = None"
    by code_simp
  have m1: "os_MkdirAll single_tree [''out''] = Inr ?made"
    by code_simp
  have f2: "lookup ?made [''out'', ''shapes_test.go''] = None"
    by code_simp
  note rules = Let_def option.case append_Cons append_Nil state.select_convs ast_File.select_convs
  note a = output_path_rule [OF h1 h2 h3, of None, simplified rules]
  note b = output_path_rule [OF h1 h2 h3, of "Some [''out'']", simplified rules]
  from a f0 have a1: "fst (generateTestForFile example_parse ascii_only [''proj'', ''shapes.go'']
                          None True ?st) = None"
    by blast
  from b m1 f2 have b1: "fst (generateTestForFile example_parse ascii_only [''proj'', ''shapes.go'']
                          (Some [''out'']) True ?st) = None"
    by blast
  show ?thesis
    using f0 f1 a a1 b b1 by blast
qed

text \<open>
  Claim C9. A function declaration with an exported name is selected whether or not it has
  a receiver: the receiver plays no part in the selection or in the rendered text, and the
  test block of a method is named from the bare method name, as the block of a free
  function of that name is. The block is part of the text that the template renders for
  the selected functions, and of the test file that \<^verbatim>\<open>generateTestForFile\<close> writes for a
  source file with these declarations.
\<close>

theorem exported_methods_are_included:
  assumes "IsExported upper name" and "FuncDecl recv name \<in> set decls"
  shows \<open>let fns = exported_functions upper tableTests decls;
             block = test_block \<lparr>Name = name, TableDriven = tableTests\<rparr>
         in \<lparr>Name = name, TableDriven = tableTests\<rparr> \<in> set fns \<and>
            exported_functions upper tableTests (map strip_receiver decls) = fns \<and>
            prefix (''\<newline>func Test'' @ name @ ''(t *testing.T) {'') block \<and>
            (\<exists>a b. Execute TestTemplate \<lparr>Package = pkg, Functions = fns\<rparr> = a @ block @ b) \<and>
            Execute TestTemplate
              \<lparr>Package = pkg,
               Functions = exported_functions upper tableTests (map strip_receiver decls)\<rparr>
              = Execute TestTemplate \<lparr>Package = pkg, Functions = fns\<rparr> \<and>
            (parser_ParseFile parse (fsys st) p = Inr node \<and> File_Decls node = decls \<and>
             generateTestForFile parse upper p outputDir tableTests st = (None, st') \<longrightarrow>
               (\<exists>a b. lookup (fsys st') (output_path outputDir p) = Some (File (a @ block @ b))))\<close>
proof -
  define fns where "fns = exported_functions upper tableTests decls"
  define block where "block = test_block \<lparr>Name = name, TableDriven = tableTests\<rparr>"
  have a: "\<lparr>Name = name, TableDriven = tableTests\<rparr> \<in> set fns"
    using assms by (force simp: fns_def exported_functions_eq testable_symbols_def)
  have b: "exported_functions upper tableTests (map strip_receiver decls) = fns"
    by (simp add: fns_def strip_receiver_functions)
  have c: \<open>prefix (''\<newline>func Test'' @ name @ ''(t *testing.T) {'') block\<close>
    unfolding block_def
    by (cases tableTests) (simp_all add: test_block_table test_block_flat)
  have d: "\<exists>a b. Execute TestTemplate \<lparr>Package = q, Functions = fns\<rparr> = a @ block @ b" for q
    using Execute_contains_block [of "\<lparr>Name = name, TableDriven = tableTests\<rparr>"
            "\<lparr>Package = q, Functions = fns\<rparr>"] a
    by (simp add: block_def)
  have e: "\<exists>a b. lookup (fsys st') (output_path outputDir p) = Some (File (a @ block @ b))"
    if parse: "parser_ParseFile parse (fsys st) p = Inr node"
      and decls: "File_Decls node = decls"
      and run: "generateTestForFile parse upper p outputDir tableTests st = (None, st')"
  proof -
    have ne: "exported_functions upper tableTests (File_Decls node) \<noteq> []"
      using a decls by (auto simp: fns_def)
    from generate_success [OF parse ne run] d [of "File_Name node"] decls
    show ?thesis by (auto simp: fns_def)
  qed
  from a b c d [of pkg] e show ?thesis
    unfolding Let_def fns_def [symmetric] block_def [symmetric] by simp
qed

theorem exported_methods_are_included_witness:
  \<open>exported_functions ascii_only True circle_decls = [\<lparr>Name = ''Area'', TableDriven = True\<rparr>] \<and>
   exported_functions ascii_only True (map strip_receiver circle_decls)
     = [\<lparr>Name = ''Area'', TableDriven = True\<rparr>] \<and>
   prefix ''\<newline>func TestArea(t *testing.T) {'' (test_block \<lparr>Name = ''Area'', TableDriven = True\<rparr>) \<and>
   fst (generateTestForFile circle_parse ascii_only [''proj'', ''circle.go''] None True
          \<lparr>fsys = circle_tree, stdout = []\<rparr>) = None \<and>
   (\<exists>a b. lookup (fsys (snd (generateTestForFile circle_parse ascii_only [''proj'', ''circle.go'']
                              None True \<lparr>fsys = circle_tree, stdout = []\<rparr>)))
                 [''proj'', ''circle_test.go'']
            = Some (File (a @ test_block \<lparr>Name = ''Area'', TableDriven = True\<rparr> @ b)))\<close>
proof -
  let ?st = "\<lparr>fsys = circle_tree, stdout = []\<rparr>"
  let ?run = "generateTestForFile circle_parse ascii_only [''proj'', ''circle.go''] None True ?st"
  let ?node = "\<lparr>File_Name = ''shapes'', File_Decls = circle_decls\<rparr>"
  have h1: "IsExported ascii_only ''Area''"
    by (simp add: IsExported_def)
  have h2: "FuncDecl (Some ''Circle'') ''Area'' \<in> set circle_decls"
    by (simp add: circle_decls_def)
  have e: "exported_functions ascii_only True circle_decls = [\<lparr>Name = ''Area'', TableDriven = True\<rparr>]"
    by code_simp
  have p: "parser_ParseFile circle_parse (fsys ?st) [''proj'', ''circle.go''] = Inr ?node"
    by code_simp
  have d: "File_Decls ?node = circle_decls"
    by simp
  have f: "fst ?run = None"
    by code_simp
  then have r: "?run = (None, snd ?run)"
    by (simp add: prod_eq_iff)
  have o: "output_path None [''proj'', ''circle.go''] = [''proj'', ''circle_test.go'']"
    by code_simp
  note t = exported_methods_are_included [OF h1 h2, where tableTests = True
             and pkg = "''shapes''" and parse = circle_parse and st = "?st"
             and p = "[''proj'', ''circle.go'']" and node = "?node" and outputDir = None
             and st' = "snd ?run", simplified Let_def e o]
  from t p d r have w: "\<exists>a b. lookup (fsys (snd ?run)) [''proj'', ''circle_test.go'']
            = Some (File (a @ test_block \<lparr>Name = ''Area'', TableDriven = True\<rparr> @ b))"
    by blast
  from t have s: "exported_functions ascii_only True (map strip_receiver circle_decls)
     = [\<lparr>Name = ''Area'', TableDriven = True\<rparr>]"
    by blast
  from t have pr: \<open>prefix (''\<newline>func Test'' @ ''Area'' @ ''(t *testing.T) {'')
                     (test_block \<lparr>Name = ''Area'', TableDriven = True\<rparr>)\<close>
    by blast
  then have pr': \<open>prefix ''\<newline>func TestArea(t *testing.T) {''
                     (test_block \<lparr>Name = ''Area'', TableDriven = True\<rparr>)\<close>
    by simp
  from e s pr' f w show ?thesis by blast
qed




end
